theory Spec2Isabelle
  imports Complex_Main
begin

section \<open>Data model\<close>

text \<open>
  A model specification is an ordered sequence of modules. A module carries its
  identifier, an optional parameter group phi (parameter name to numeric array, in the
  order of the dict's entries) and an optional prior, kept here by its mean. The
  fitting-mode marker and the metadata dict are fields of the specification.
\<close>

datatype py_error = MissingPrior | ShapeMismatch | KeyError | FitterFailure

type_synonym phi_group = "(string \<times> real list) list"

record nems_module =
  fn :: string
  phi :: "phi_group option"
  prior :: "phi_group option"

datatype meta_value = MStr string | MReal real | MInt int

record modelspec =
  modules :: "nems_module list"
  fit_mode :: bool
  meta :: "(string \<times> meta_value) list"

text \<open>
  The attributes that the fitting code hangs on the cost function object
  (\<^verbatim>\<open>basic_cost.counter\<close>, \<^verbatim>\<open>basic_cost.error\<close>, \<^verbatim>\<open>basic_cost.stack\<close>).
  \<open>None\<close> is an attribute that was never set: \<^verbatim>\<open>hasattr\<close> is False there.
\<close>

record 'k attrs =
  counter :: "int option"
  error :: "real option"
  stack :: "'k option"

text \<open>
  The calls a cost evaluation makes on its collaborators, in the order the source makes
  them. \<open>EvEvaluate\<close> carries the \<^verbatim>\<open>start\<close> and \<^verbatim>\<open>keep_stack\<close> arguments
  the evaluator receives; \<open>EvProgress\<close> is the \<^verbatim>\<open>log.info\<close> and
  \<^verbatim>\<open>progress_fun\<close> pair.
\<close>

datatype event =
    EvUnpack
  | EvSegment
  | EvLastMatchingPhi
  | EvCopyStackData int
  | EvEvaluate "int option" bool
  | EvStoreStack
  | EvMetric
  | EvProgress int real

section \<open>Helpers of \<^verbatim>\<open>nems.fitters.util\<close>\<close>

text \<open>
  Modelled from the spec: \<^verbatim>\<open>nems.fitters.util.last_matching_phi\<close> is not among the
  sources. The spec compares the two specifications' modules position by position; the
  prefix length is the count of leading modules whose parameter values are identical. The
  function returns the index of the last such module, that is the count less one.
\<close>

fun matching_prefix :: "nems_module list \<Rightarrow> nems_module list \<Rightarrow> nat" where
  "matching_prefix (a # as) (b # bs) =
     (if phi a = phi b then Suc (matching_prefix as bs) else 0)"
| "matching_prefix _ _ = 0"

definition last_matching_phi :: "modelspec \<Rightarrow> modelspec \<Rightarrow> int" where
  "last_matching_phi old_spec new_spec =
     int (matching_prefix (modules old_spec) (modules new_spec)) - 1"

section \<open>The cost functions\<close>

text \<open>
  The counter and last-error bookkeeping at the end of both cost functions; \<open>n\<close> is
  the report cadence (500 in \<^verbatim>\<open>cost_functions.py\<close>, 1000 in \<^verbatim>\<open>fit_basic.py\<close>).
\<close>

definition bump_counter :: "int \<Rightarrow> real \<Rightarrow> 'k attrs \<Rightarrow> 'k attrs \<times> event list" where
  "bump_counter n err a =
     (case counter a of
        None \<Rightarrow> (a, [])
      | Some c \<Rightarrow>
          (a\<lparr>counter := Some (c + 1)\<rparr>,
           if (c + 1) mod n = 0 then [EvProgress (c + 1) err] else []))"

definition set_error :: "real \<Rightarrow> 'k attrs \<Rightarrow> 'k attrs" where
  "set_error err a = (case error a of None \<Rightarrow> a | Some _ \<Rightarrow> a\<lparr>error := Some err\<rparr>)"

text \<open>
  \<^verbatim>\<open>basic_cost\<close> of \<^verbatim>\<open>cost_functions.py\<close>. The callables are parameters; the
  unpacker may raise. \<open>copy_stack_data\<close> (of \<^verbatim>\<open>nems.fitters.util\<close>) and the
  lookup of the \<^verbatim>\<open>'stack'\<close> entry in the evaluated data are parameters too.
\<close>

definition basic_cost_cf ::
  "('d \<Rightarrow> 'k \<Rightarrow> int \<Rightarrow> modelspec \<Rightarrow> 'd) \<Rightarrow> ('d \<Rightarrow> 'k option) \<Rightarrow>
   real list \<Rightarrow> (real list \<Rightarrow> py_error + modelspec) \<Rightarrow> modelspec \<Rightarrow> 'd \<Rightarrow> ('d \<Rightarrow> 'd) \<Rightarrow>
   ('d \<Rightarrow> modelspec \<Rightarrow> int option \<Rightarrow> bool \<Rightarrow> 'd) \<Rightarrow> ('d \<Rightarrow> real) \<Rightarrow> bool \<Rightarrow>
   'k attrs \<Rightarrow> py_error + (real \<times> 'k attrs \<times> event list)" where
  "basic_cost_cf copy_stack_data stack_of sigma unpacker mspec data segmentor
       evaluator metric keep_stack a =
     (case unpacker sigma of
        Inl e \<Rightarrow> Inl e
      | Inr updated_spec \<Rightarrow>
          let data_subset = segmentor data;
              (data_subset', start_idx, tr1) =
                (case (if keep_stack then stack a else None) of
                   None \<Rightarrow> (data_subset, None, [])
                 | Some k \<Rightarrow>
                     let idx = last_matching_phi mspec updated_spec
                     in (copy_stack_data data_subset k idx mspec, Some (idx + 1),
                         [EvLastMatchingPhi, EvCopyStackData idx]));
              updated_data_subset = evaluator data_subset' updated_spec start_idx keep_stack
          in (case (if keep_stack
                    then (case stack_of updated_data_subset of
                            None \<Rightarrow> Inl KeyError
                          | Some k \<Rightarrow> Inr (a\<lparr>stack := Some k\<rparr>, [EvStoreStack]))
                    else Inr (a, [])) of
                Inl e \<Rightarrow> Inl e
              | Inr (a1, tr2) \<Rightarrow>
                  let err = metric updated_data_subset;
                      (a2, tr3) = bump_counter 500 err a1
                  in Inr (err, set_error err a2,
                          [EvUnpack, EvSegment] @ tr1 @
                          [EvEvaluate start_idx keep_stack] @ tr2 @ [EvMetric] @ tr3)))"

text \<open>
  \<^verbatim>\<open>basic_cost\<close> of \<^verbatim>\<open>fit_basic.py\<close>. It calls the evaluator with two arguments,
  so the evaluator runs on its defaults: no start index and no stack kept.
\<close>

definition basic_cost_fb ::
  "real list \<Rightarrow> (real list \<Rightarrow> py_error + modelspec) \<Rightarrow> modelspec \<Rightarrow> 'd \<Rightarrow> ('d \<Rightarrow> 'd) \<Rightarrow>
   ('d \<Rightarrow> modelspec \<Rightarrow> int option \<Rightarrow> bool \<Rightarrow> 'd) \<Rightarrow> ('d \<Rightarrow> real) \<Rightarrow>
   'k attrs \<Rightarrow> py_error + (real \<times> 'k attrs \<times> event list)" where
  "basic_cost_fb sigma unpacker mspec data segmentor evaluator metric a =
     (case unpacker sigma of
        Inl e \<Rightarrow> Inl e
      | Inr updated_spec \<Rightarrow>
          let data_subset = segmentor data;
              updated_data_subset = evaluator data_subset updated_spec None False;
              err = metric updated_data_subset;
              (a2, tr3) = bump_counter 1000 err a
          in Inr (err, set_error err a2,
                  [EvUnpack, EvSegment, EvEvaluate None False, EvMetric] @ tr3))"

section \<open>Collaborators of the fit entry point\<close>

text \<open>
  Modelled from the spec: \<^verbatim>\<open>nems.priors.set_mean_phi\<close> is not among the sources.
  It initialises phi of a module to the mean of its prior, and fails for a module that
  has no defined prior.
\<close>

definition set_mean_phi :: "nems_module \<Rightarrow> py_error + nems_module" where
  "set_mean_phi m =
     (case prior m of None \<Rightarrow> Inl MissingPrior | Some p \<Rightarrow> Inr (m\<lparr>phi := Some p\<rparr>))"

text \<open>
  Modelled from the spec: \<^verbatim>\<open>nems.modelspec.fit_mode_on\<close> and
  \<^verbatim>\<open>fit_mode_off\<close> are not among the sources. They mark and unmark the
  specification as being in fitting mode. Their results are discarded by the caller, so
  they act on the specification they are given, in place.
\<close>

definition fit_mode_on :: "modelspec \<Rightarrow> modelspec" where
  "fit_mode_on s = s\<lparr>fit_mode := True\<rparr>"

definition fit_mode_off :: "modelspec \<Rightarrow> modelspec" where
  "fit_mode_off s = s\<lparr>fit_mode := False\<rparr>"

text \<open>A Python dict assignment \<^verbatim>\<open>d[k] = v\<close> on a dict kept as an association list.\<close>

fun dict_set :: "(string \<times> 'b) list \<Rightarrow> string \<Rightarrow> 'b \<Rightarrow> (string \<times> 'b) list" where
  "dict_set [] k v = [(k, v)]"
| "dict_set ((k', v') # kvs) k v =
     (if k' = k then (k, v) # kvs else (k', v') # dict_set kvs k v)"

text \<open>
  Modelled from the spec: \<^verbatim>\<open>nems.modelspec.set_modelspec_metadata\<close> is not among
  the sources. It attaches one metadata entry to the specification.
\<close>

definition set_modelspec_metadata :: "modelspec \<Rightarrow> string \<Rightarrow> meta_value \<Rightarrow> modelspec" where
  "set_modelspec_metadata s k v = s\<lparr>meta := dict_set (meta s) k v\<rparr>"

subsection \<open>The parameter mapper\<close>

text \<open>
  Modelled from the spec: \<^verbatim>\<open>nems.fitters.mappers.simple_vector\<close> is not among the
  sources. \<open>pack\<close> flattens the phi values of all modules into one sequence, in module
  order and then in the order of the parameters of a module. \<open>unpack\<close> is its inverse
  on a template specification: it rebuilds the specification with the leaf values taken
  from the vector and every other field as in the template, and fails when the length of
  the vector is not the sum of the expected parameter sizes.
\<close>

definition pack_phi :: "phi_group \<Rightarrow> real list" where
  "pack_phi p = concat (map snd p)"

definition pack_module :: "nems_module \<Rightarrow> real list" where
  "pack_module m = (case phi m of None \<Rightarrow> [] | Some p \<Rightarrow> pack_phi p)"

definition pack :: "modelspec \<Rightarrow> real list" where
  "pack s = concat (map pack_module (modules s))"

fun fill_phi :: "phi_group \<Rightarrow> real list \<Rightarrow> phi_group" where
  "fill_phi [] v = []"
| "fill_phi ((name, arr) # ps) v =
     (name, take (length arr) v) # fill_phi ps (drop (length arr) v)"

fun fill_modules :: "nems_module list \<Rightarrow> real list \<Rightarrow> nems_module list" where
  "fill_modules [] v = []"
| "fill_modules (m # ms) v =
     (case phi m of
        None \<Rightarrow> m # fill_modules ms v
      | Some p \<Rightarrow>
          m\<lparr>phi := Some (fill_phi p v)\<rparr> # fill_modules ms (drop (length (pack_phi p)) v))"

definition unpack :: "modelspec \<Rightarrow> real list \<Rightarrow> py_error + modelspec" where
  "unpack template v =
     (if length v \<noteq> length (pack template) then Inl ShapeMismatch
      else Inr (template\<lparr>modules := fill_modules (modules template) v\<rparr>))"

definition simple_vector ::
  "modelspec \<Rightarrow> (modelspec \<Rightarrow> real list) \<times> (real list \<Rightarrow> py_error + modelspec)" where
  "simple_vector initial_modelspec = (pack, unpack initial_modelspec)"

subsection \<open>The external minimizer\<close>

text \<open>
  The fitter is a black box that is handed the initial vector and the cost closure. All
  it can do with the closure is call it, so a run of the fitter is a tree: it returns an
  improved vector, or raises, or asks for the cost of a vector and goes on from the
  answer. An exception of the cost function leaves through the fitter.
\<close>

datatype optimizer =
    Return "real list"
  | Raise
  | Ask "real list" "real \<Rightarrow> optimizer"

primrec run_fitter ::
  "optimizer \<Rightarrow> (real list \<Rightarrow> 'k attrs \<Rightarrow> py_error + (real \<times> 'k attrs \<times> event list)) \<Rightarrow>
   'k attrs \<Rightarrow> (py_error + real list) \<times> 'k attrs \<times> event list" where
  "run_fitter (Return v) cost_fn a = (Inr v, a, [])"
| "run_fitter Raise cost_fn a = (Inl FitterFailure, a, [])"
| "run_fitter (Ask v k) cost_fn a =
     (case cost_fn v a of
        Inl e \<Rightarrow> (Inl e, a, [])
      | Inr (err, a', tr) \<Rightarrow>
          (case run_fitter (k err) cost_fn a' of
             (r, a'', tr') \<Rightarrow> (r, a'', tr @ tr')))"

section \<open>The fit entry point\<close>

text \<open>
  The loop of \<^verbatim>\<open>fit_basic\<close> under \<^verbatim>\<open>require_phi\<close>: a module without phi is
  replaced, in the caller's list, by the module that \<open>set_mean_phi\<close> returns. When
  \<open>set_mean_phi\<close> raises, the modules before it have been replaced already.
\<close>

fun ensure_phi :: "nems_module list \<Rightarrow> py_error option \<times> nems_module list" where
  "ensure_phi [] = (None, [])"
| "ensure_phi (m # ms) =
     (case phi m of
        Some _ \<Rightarrow> (case ensure_phi ms of (r, ms') \<Rightarrow> (r, m # ms'))
      | None \<Rightarrow>
          (case set_mean_phi m of
             Inl e \<Rightarrow> (Some e, m # ms)
           | Inr m' \<Rightarrow> (case ensure_phi ms of (r, ms') \<Rightarrow> (r, m' # ms'))))"

text \<open>
  What a call of \<^verbatim>\<open>fit_basic\<close> leaves behind: the returned list or the exception,
  the caller's specification object after the call, the attributes of the cost function,
  and the collaborator calls of all cost evaluations.
\<close>

record 'k fit_result =
  outcome :: "py_error + modelspec list"
  caller_spec :: modelspec
  cost_attrs :: "'k attrs"
  trace :: "event list"

text \<open>
  \<^verbatim>\<open>fit_basic\<close>. The keyword options of the fitter are part of \<open>fitter\<close>;
  \<open>t0\<close> and \<open>t1\<close> are the two readings of \<^verbatim>\<open>time.time()\<close>. The mapper and the
  unpacker return fresh specifications, as the spec has it.
\<close>

definition fit_basic ::
  "'d \<Rightarrow> modelspec \<Rightarrow> (real list \<Rightarrow> optimizer) \<Rightarrow>
   (real list \<Rightarrow> (real list \<Rightarrow> py_error + modelspec) \<Rightarrow> modelspec \<Rightarrow> 'd \<Rightarrow> ('d \<Rightarrow> 'd) \<Rightarrow>
      ('d \<Rightarrow> modelspec \<Rightarrow> int option \<Rightarrow> bool \<Rightarrow> 'd) \<Rightarrow> ('d \<Rightarrow> real) \<Rightarrow>
      'k attrs \<Rightarrow> py_error + (real \<times> 'k attrs \<times> event list)) \<Rightarrow>
   ('d \<Rightarrow> 'd) \<Rightarrow>
   (modelspec \<Rightarrow> (modelspec \<Rightarrow> real list) \<times> (real list \<Rightarrow> py_error + modelspec)) \<Rightarrow>
   ('d \<Rightarrow> real) \<Rightarrow> string \<Rightarrow> bool \<Rightarrow>
   ('d \<Rightarrow> modelspec \<Rightarrow> int option \<Rightarrow> bool \<Rightarrow> 'd) \<Rightarrow> real \<Rightarrow> real \<Rightarrow>
   'k attrs \<Rightarrow> 'k fit_result" where
  "fit_basic data mspec fitter cost_function segmentor mapper metric metaname require_phi
       evaluator t0 t1 a =
     (case (if require_phi then ensure_phi (modules mspec) else (None, modules mspec)) of
        (Some e, ms1) \<Rightarrow>
          \<lparr>outcome = Inl e, caller_spec = mspec\<lparr>modules := ms1\<rparr>, cost_attrs = a,
           trace = []\<rparr>
      | (None, ms1) \<Rightarrow>
          let spec2 = fit_mode_on (mspec\<lparr>modules := ms1\<rparr>);
              (packer, unpacker) = mapper spec2;
              a0 = a\<lparr>counter := Some 0\<rparr>;
              cost_fn = (\<lambda>sigma. cost_function sigma unpacker spec2 data segmentor
                                    evaluator metric);
              sigma = packer spec2
          in (case run_fitter (fitter sigma) cost_fn a0 of
                (Inl e, a', tr) \<Rightarrow>
                  \<lparr>outcome = Inl e, caller_spec = spec2, cost_attrs = a', trace = tr\<rparr>
              | (Inr improved_sigma, a', tr) \<Rightarrow>
                  (case unpacker improved_sigma of
                     Inl e \<Rightarrow>
                       \<lparr>outcome = Inl e, caller_spec = spec2, cost_attrs = a', trace = tr\<rparr>
                   | Inr improved_modelspec \<Rightarrow>
                       let elapsed_time = t1 - t0;
                           r1 = fit_mode_off improved_modelspec;
                           r2 = set_modelspec_metadata r1 ''fitter'' (MStr metaname);
                           r3 = set_modelspec_metadata r2 ''fit_time'' (MReal elapsed_time);
                           r4 = set_modelspec_metadata r3 ''n_parms''
                                  (MInt (int (length improved_sigma)))
                       in \<lparr>outcome = Inr [r4], caller_spec = spec2, cost_attrs = a',
                           trace = tr\<rparr>)))"

section \<open>Reading traces\<close>

text \<open>Predicates on events and the trace of a cost evaluation, used to state properties.\<close>

fun is_progress :: "event \<Rightarrow> bool" where
  "is_progress (EvProgress _ _) = True"
| "is_progress _ = False"

fun is_evaluate :: "event \<Rightarrow> bool" where
  "is_evaluate (EvEvaluate _ _) = True"
| "is_evaluate _ = False"

definition cost_trace :: "py_error + (real \<times> 'k attrs \<times> event list) \<Rightarrow> event list" where
  "cost_trace r = (case r of Inl _ \<Rightarrow> [] | Inr (_, _, tr) \<Rightarrow> tr)"


section \<open>Example inputs\<close>

text \<open>
  A two-module specification, variants of it that lack phi or a prior, and small
  collaborators on data that is a single number: the evaluator adds the sum of the packed
  parameters, the metric squares, the stack entry of evaluated data is the data itself.
\<close>

definition no_phi_spec :: modelspec where
  "no_phi_spec =
     \<lparr>modules =
        [\<lparr>fn = ''fir'', phi = Some [(''coefficients'', [1])], prior = None\<rparr>,
         \<lparr>fn = ''dexp'', phi = None, prior = Some [(''base'', [2])]\<rparr>],
      fit_mode = False, meta = []\<rparr>"


definition example_fitter :: "real list \<Rightarrow> optimizer" where
  "example_fitter sigma = Ask sigma (\<lambda>e. Return [1, 5])"

definition example_spec :: modelspec where
  "example_spec =
     \<lparr>modules =
        [\<lparr>fn = ''fir'', phi = Some [(''coefficients'', [1])], prior = None\<rparr>,
         \<lparr>fn = ''dexp'', phi = Some [(''base'', [2])], prior = None\<rparr>],
      fit_mode = False, meta = []\<rparr>"

definition example_unpacked :: modelspec where
  "example_unpacked =
     \<lparr>modules =
        [\<lparr>fn = ''fir'', phi = Some [(''coefficients'', [1])], prior = None\<rparr>,
         \<lparr>fn = ''dexp'', phi = Some [(''base'', [5])], prior = None\<rparr>],
      fit_mode = False, meta = []\<rparr>"

definition example_evaluator :: "real \<Rightarrow> modelspec \<Rightarrow> int option \<Rightarrow> bool \<Rightarrow> real" where
  "example_evaluator d s start ks = d + sum_list (pack s)"

definition example_copy_stack_data :: "real \<Rightarrow> real \<Rightarrow> int \<Rightarrow> modelspec \<Rightarrow> real" where
  "example_copy_stack_data d k idx s = d"

definition example_metric :: "real \<Rightarrow> real" where
  "example_metric d = d * d"

definition example_attrs :: "real attrs" where
  "example_attrs = \<lparr>counter = Some 499, error = Some 0, stack = Some 3\<rparr>"

definition unset_attrs :: "real attrs" where
  "unset_attrs = \<lparr>counter = None, error = None, stack = None\<rparr>"

section \<open>Evaluating the examples\<close>

lemma unpack_example: "unpack example_spec [1, 5] = Inr example_unpacked"
  by (simp add: unpack_def example_spec_def example_unpacked_def pack_def pack_module_def
      pack_phi_def)

lemma pack_example_unpacked: "pack example_unpacked = [1, 5]"
  by (simp add: example_unpacked_def pack_def pack_module_def pack_phi_def)

lemma last_matching_example: "last_matching_phi example_spec example_unpacked = 0"
  by (simp add: last_matching_phi_def example_spec_def example_unpacked_def)

lemmas example_simps =
  unpack_example pack_example_unpacked last_matching_example example_evaluator_def
  example_copy_stack_data_def example_metric_def example_attrs_def unset_attrs_def

section \<open>Properties of the cost functions\<close>


text \<open>
  C1. Whenever the unpacker yields a specification for sigma, both cost functions return
  the metric of the evaluated, segmented data under that specification: evaluated from
  scratch when no stack is kept or none exists yet, and from the copied stack at the resume
  index otherwise (a \<^verbatim>\<open>KeyError\<close> leaves when the evaluated data has no stack
  entry). The value of the counter and of the last error, and with them the progress
  report, do not reach the returned value.
\<close>

theorem basic_cost_returns_metric_error:
  "unpacker sigma = Inr spec \<Longrightarrow>
     map_sum id fst (basic_cost_fb sigma unpacker mspec data segmentor evaluator metric b) =
       Inr (metric (evaluator (segmentor data) spec None False)) \<and>
     map_sum id fst
       (basic_cost_cf copy_stack_data stack_of sigma unpacker mspec data segmentor
          evaluator metric False a) =
       Inr (metric (evaluator (segmentor data) spec None False)) \<and>
     map_sum id fst
       (basic_cost_cf copy_stack_data stack_of sigma unpacker mspec data segmentor
          evaluator metric True a) =
       (let u = (case stack a of
                   None \<Rightarrow> evaluator (segmentor data) spec None True
                 | Some k \<Rightarrow>
                     evaluator
                       (copy_stack_data (segmentor data) k (last_matching_phi mspec spec) mspec)
                       spec (Some (last_matching_phi mspec spec + 1)) True)
        in case stack_of u of None \<Rightarrow> Inl KeyError | Some _ \<Rightarrow> Inr (metric u)) \<and>
     map_sum id fst
       (basic_cost_fb sigma unpacker mspec data segmentor evaluator metric
          (b\<lparr>counter := c, error := e\<rparr>)) =
       map_sum id fst
         (basic_cost_fb sigma unpacker mspec data segmentor evaluator metric b) \<and>
     map_sum id fst
       (basic_cost_cf copy_stack_data stack_of sigma unpacker mspec data segmentor
          evaluator metric keep_stack (a\<lparr>counter := c, error := e\<rparr>)) =
       map_sum id fst
         (basic_cost_cf copy_stack_data stack_of sigma unpacker mspec data segmentor
            evaluator metric keep_stack a)"
  by (auto simp add: basic_cost_cf_def basic_cost_fb_def Let_def
      split: sum.split prod.split option.split)

text \<open>The property at a concrete input.\<close>

theorem basic_cost_returns_metric_error_witness:
  "unpack example_spec [1, 5] = Inr example_unpacked \<and>
   map_sum id fst
     (basic_cost_fb [1, 5] (unpack example_spec) example_spec 4 id example_evaluator
        example_metric example_attrs) = Inr 100 \<and>
   map_sum id fst
     (basic_cost_cf example_copy_stack_data Some [1, 5] (unpack example_spec) example_spec 4
        id example_evaluator example_metric True example_attrs) = Inr 100"
  using basic_cost_returns_metric_error
    [where unpacker = "unpack example_spec" and sigma = "[1, 5]" and mspec = example_spec
       and data = 4 and segmentor = id and evaluator = example_evaluator
       and metric = example_metric and a = example_attrs and b = example_attrs
       and copy_stack_data = example_copy_stack_data and stack_of = Some,
     OF unpack_example]
  by (simp add: example_simps)



lemma matching_prefix_le: "matching_prefix xs ys \<le> min (length xs) (length ys)"
  by (induction xs ys rule: matching_prefix.induct) auto

lemma matching_prefix_same:
  "i < matching_prefix xs ys \<Longrightarrow> phi (xs ! i) = phi (ys ! i)"
proof (induction xs ys arbitrary: i rule: matching_prefix.induct)
  case (1 a as b bs)
  then show ?case by (cases i) (auto split: if_splits)
qed simp_all

lemma matching_prefix_stop:
  "matching_prefix xs ys < min (length xs) (length ys) \<Longrightarrow>
   phi (xs ! matching_prefix xs ys) \<noteq> phi (ys ! matching_prefix xs ys)"
  by (induction xs ys rule: matching_prefix.induct) auto

text \<open>
  C2 (amended). With \<^verbatim>\<open>keep_stack\<close> set and a stack present, the evaluator is
  called exactly once, with a resume index equal to the number of leading modules whose phi
  is identical, position by position, in the new specification and in the
  \<^verbatim>\<open>modelspec\<close> argument of the cost function (one past the index that
  \<open>last_matching_phi\<close> returns). The comparison is against that argument, not against
  the specification of the previous call.
\<close>

theorem basic_cost_resume_index:
  assumes "unpacker sigma = Inr spec"
    and "stack a = Some k"
    and "stack_of
           (evaluator
              (copy_stack_data (segmentor data) k
                 (int (matching_prefix (modules mspec) (modules spec)) - 1) mspec)
              spec (Some (int (matching_prefix (modules mspec) (modules spec)))) True) = Some k'"
  shows "filter is_evaluate
           (cost_trace
              (basic_cost_cf copy_stack_data stack_of sigma unpacker mspec data segmentor
                 evaluator metric True a)) =
           [EvEvaluate (Some (int (matching_prefix (modules mspec) (modules spec)))) True] \<and>
         matching_prefix (modules mspec) (modules spec) \<le>
           min (length (modules mspec)) (length (modules spec)) \<and>
         (\<forall>i < matching_prefix (modules mspec) (modules spec).
            phi (modules mspec ! i) = phi (modules spec ! i)) \<and>
         (matching_prefix (modules mspec) (modules spec) <
            min (length (modules mspec)) (length (modules spec)) \<longrightarrow>
          phi (modules mspec ! matching_prefix (modules mspec) (modules spec)) \<noteq>
          phi (modules spec ! matching_prefix (modules mspec) (modules spec)))"
proof -
  have "filter is_evaluate
           (cost_trace
              (basic_cost_cf copy_stack_data stack_of sigma unpacker mspec data segmentor
                 evaluator metric True a)) =
           [EvEvaluate (Some (int (matching_prefix (modules mspec) (modules spec)))) True]"
    using assms
    by (simp add: basic_cost_cf_def cost_trace_def last_matching_phi_def Let_def
        bump_counter_def split: prod.split option.split)
  then show ?thesis
    using matching_prefix_le matching_prefix_same matching_prefix_stop by blast
qed

text \<open>The property at a concrete input.\<close>

theorem basic_cost_resume_index_witness:
  "filter is_evaluate
     (cost_trace
        (basic_cost_cf example_copy_stack_data Some [1, 5] (unpack example_spec) example_spec
           4 id example_evaluator example_metric True example_attrs)) =
     [EvEvaluate (Some 1) True]"
proof -
  have s: "stack example_attrs = Some 3" by (simp add: example_attrs_def)
  have m: "matching_prefix (modules example_spec) (modules example_unpacked) = 1"
    by (simp add: example_spec_def example_unpacked_def)
  have k: "Some (example_evaluator
              (example_copy_stack_data (id 4) 3
                 (int (matching_prefix (modules example_spec) (modules example_unpacked)) - 1)
                 example_spec)
              example_unpacked
              (Some (int (matching_prefix (modules example_spec) (modules example_unpacked))))
              True) = Some 10"
    by (simp add: example_simps)
  from basic_cost_resume_index [where unpacker = "unpack example_spec" and stack_of = Some
      and sigma = "[1, 5]" and spec = example_unpacked and a = example_attrs and k = 3
      and evaluator = example_evaluator and copy_stack_data = example_copy_stack_data
      and segmentor = id and data = 4 and mspec = example_spec and k' = 10
      and metric = example_metric, OF unpack_example s k]
  show ?thesis by (simp add: m)
qed

text \<open>
  C2 as stated fails: two calls in a row with the same vector. The second call finds the
  stack of the first, whose specification is identical to its own in both modules, and
  still resumes at index 1, the prefix shared with the \<^verbatim>\<open>modelspec\<close> argument.
\<close>

theorem basic_cost_resume_index_counterexample:
  "basic_cost_cf example_copy_stack_data Some [1, 5] (unpack example_spec) example_spec 4 id
     example_evaluator example_metric True unset_attrs =
     Inr (100, \<lparr>counter = None, error = None, stack = Some 10\<rparr>,
          [EvUnpack, EvSegment, EvEvaluate None True, EvStoreStack, EvMetric]) \<and>
   basic_cost_cf example_copy_stack_data Some [1, 5] (unpack example_spec) example_spec 4 id
     example_evaluator example_metric True \<lparr>counter = None, error = None, stack = Some 10\<rparr> =
     Inr (100, \<lparr>counter = None, error = None, stack = Some 10\<rparr>,
          [EvUnpack, EvSegment, EvLastMatchingPhi, EvCopyStackData 0, EvEvaluate (Some 1) True,
           EvStoreStack, EvMetric]) \<and>
   unpack example_spec [1, 5] = Inr example_unpacked \<and>
   matching_prefix (modules example_unpacked) (modules example_unpacked) = 2"
  by (simp add: basic_cost_cf_def bump_counter_def set_error_def example_simps)
    (simp add: example_unpacked_def)

text \<open>
  C3 (amended). With \<^verbatim>\<open>keep_stack\<close> set, a cost evaluation that completes makes
  its calls in this order: unpack, segment, then (only when a stack exists) the prefix
  comparison and the copy of the stack data, then evaluate, store the stack, score. Any
  progress report comes after these.
\<close>

theorem basic_cost_step_order:
  assumes "unpacker sigma = Inr spec"
    and "u = (case stack a of
                None \<Rightarrow> evaluator (segmentor data) spec None True
              | Some k \<Rightarrow>
                  evaluator
                    (copy_stack_data (segmentor data) k (last_matching_phi mspec spec) mspec)
                    spec (Some (last_matching_phi mspec spec + 1)) True)"
    and "stack_of u = Some k'"
  shows "filter (\<lambda>ev. \<not> is_progress ev)
           (cost_trace
              (basic_cost_cf copy_stack_data stack_of sigma unpacker mspec data segmentor
                 evaluator metric True a)) =
           [EvUnpack, EvSegment] @
           (case stack a of
              None \<Rightarrow> [EvEvaluate None True]
            | Some k \<Rightarrow>
                [EvLastMatchingPhi, EvCopyStackData (last_matching_phi mspec spec),
                 EvEvaluate (Some (last_matching_phi mspec spec + 1)) True]) @
           [EvStoreStack, EvMetric]"
  using assms
  by (cases "stack a")
    (auto simp add: basic_cost_cf_def cost_trace_def Let_def bump_counter_def
      split: prod.split option.split)

text \<open>The property at a concrete input.\<close>

theorem basic_cost_step_order_witness:
  "filter (\<lambda>ev. \<not> is_progress ev)
     (cost_trace
        (basic_cost_cf example_copy_stack_data Some [1, 5] (unpack example_spec) example_spec
           4 id example_evaluator example_metric True example_attrs)) =
     [EvUnpack, EvSegment, EvLastMatchingPhi, EvCopyStackData 0, EvEvaluate (Some 1) True,
      EvStoreStack, EvMetric]"
  using basic_cost_step_order [where unpacker = "unpack example_spec" and stack_of = Some
      and a = example_attrs and segmentor = id and data = 4 and mspec = example_spec
      and evaluator = example_evaluator and copy_stack_data = example_copy_stack_data
      and metric = example_metric, OF unpack_example refl refl]
  by (simp add: example_simps)

text \<open>
  C3 as stated fails: the dataset is segmented before the prefix is determined, and a call
  that finds no stack determines no prefix at all.
\<close>

theorem basic_cost_step_order_counterexample:
  "cost_trace
     (basic_cost_cf example_copy_stack_data Some [1, 5] (unpack example_spec) example_spec
        4 id example_evaluator example_metric True example_attrs) =
     [EvUnpack, EvSegment, EvLastMatchingPhi, EvCopyStackData 0, EvEvaluate (Some 1) True,
      EvStoreStack, EvMetric, EvProgress 500 100] \<and>
   cost_trace
     (basic_cost_cf example_copy_stack_data Some [1, 5] (unpack example_spec) example_spec
        4 id example_evaluator example_metric True unset_attrs) =
     [EvUnpack, EvSegment, EvEvaluate None True, EvStoreStack, EvMetric]"
  by (simp add: basic_cost_cf_def cost_trace_def bump_counter_def set_error_def example_simps)

section \<open>Properties of the parameter mapper\<close>

lemma pack_phi_Cons: "pack_phi ((name, arr) # ps) = arr @ pack_phi ps"
  by (simp add: pack_phi_def)

lemma pack_module_None: "phi m = None \<Longrightarrow> pack_module m = []"
  by (simp add: pack_module_def)

lemma pack_module_Some: "phi m = Some p \<Longrightarrow> pack_module m = pack_phi p"
  by (simp add: pack_module_def)

lemma fill_phi_pack_phi: "fill_phi p (pack_phi p @ rest) = p"
  by (induction p arbitrary: rest) (auto simp add: pack_phi_Cons pack_phi_def)

lemma fill_modules_pack:
  "fill_modules ms (concat (map pack_module ms) @ rest) = ms"
proof (induction ms arbitrary: rest)
  case Nil
  then show ?case by simp
next
  case (Cons m ms)
  show ?case
  proof (cases "phi m")
    case None
    then show ?thesis using Cons.IH by (simp add: pack_module_None)
  next
    case (Some p)
    have "m\<lparr>phi := Some p\<rparr> = m" using Some by simp
    then show ?thesis using Some Cons.IH fill_phi_pack_phi [of p]
      by (simp add: pack_module_Some)
  qed
qed

lemma unpack_pack: "unpack s (pack s) = Inr s"
  using fill_modules_pack [of "modules s" "[]"] by (simp add: unpack_def pack_def)

lemma pack_fill_phi:
  "length (pack_phi p) \<le> length v \<Longrightarrow> pack_phi (fill_phi p v) = take (length (pack_phi p)) v"
proof (induction p arbitrary: v)
  case Nil
  then show ?case by (simp add: pack_phi_def)
next
  case (Cons na p)
  obtain name arr where na: "na = (name, arr)" by (cases na)
  have "length (pack_phi p) \<le> length (drop (length arr) v)"
    using Cons.prems by (simp add: na pack_phi_Cons)
  then have "pack_phi (fill_phi p (drop (length arr) v)) =
      take (length (pack_phi p)) (drop (length arr) v)"
    by (rule Cons.IH)
  then show ?case
    by (simp add: na pack_phi_Cons take_add)
qed

lemma pack_fill_modules:
  "length (concat (map pack_module ms)) \<le> length v \<Longrightarrow>
   concat (map pack_module (fill_modules ms v)) = take (length (concat (map pack_module ms))) v"
proof (induction ms arbitrary: v)
  case Nil
  then show ?case by simp
next
  case (Cons m ms)
  show ?case
  proof (cases "phi m")
    case None
    then show ?thesis using Cons by (simp add: pack_module_None)
  next
    case (Some p)
    have le: "length (pack_phi p) \<le> length v"
      using Cons.prems Some by (simp add: pack_module_Some)
    have "length (concat (map pack_module ms)) \<le> length (drop (length (pack_phi p)) v)"
      using Cons.prems Some by (simp add: pack_module_Some)
    then have "concat (map pack_module (fill_modules ms (drop (length (pack_phi p)) v))) =
        take (length (concat (map pack_module ms))) (drop (length (pack_phi p)) v)"
      by (rule Cons.IH)
    then show ?thesis using Some pack_fill_phi [OF le]
      by (simp add: pack_module_Some take_add)
  qed
qed

lemma fill_modules_fn: "map fn (fill_modules ms v) = map fn ms"
  by (induction ms arbitrary: v) (auto split: option.split)

lemma fill_modules_prior: "map prior (fill_modules ms v) = map prior ms"
  by (induction ms arbitrary: v) (auto split: option.split)

lemma fill_phi_names: "map fst (fill_phi p v) = map fst p"
  by (induction p v rule: fill_phi.induct) auto

lemma fill_modules_names:
  "map (\<lambda>m. map_option (map fst) (phi m)) (fill_modules ms v) =
   map (\<lambda>m. map_option (map fst) (phi m)) ms"
  by (induction ms arbitrary: v) (auto simp add: fill_phi_names split: option.split)

text \<open>
  C7. Unpacking the packed vector of a specification gives the specification back. Any
  successful unpack keeps the module identifiers, the priors, the parameter names, the
  fit-mode marker and the metadata of the template, packs back to the vector it came from, and so has a packed
  length equal to the template's.
\<close>

theorem pack_unpack_round_trip:
  "unpack s (pack s) = Inr s \<and>
   (\<forall>v s'. unpack s v = Inr s' \<longrightarrow>
      map fn (modules s') = map fn (modules s) \<and>
      map prior (modules s') = map prior (modules s) \<and>
      map (\<lambda>m. map_option (map fst) (phi m)) (modules s') =
        map (\<lambda>m. map_option (map fst) (phi m)) (modules s) \<and>
      fit_mode s' = fit_mode s \<and> meta s' = meta s \<and>
      pack s' = v \<and> length (pack s') = length (pack s))"
proof -
  have "map fn (modules s') = map fn (modules s) \<and>
      map prior (modules s') = map prior (modules s) \<and>
      map (\<lambda>m. map_option (map fst) (phi m)) (modules s') =
        map (\<lambda>m. map_option (map fst) (phi m)) (modules s) \<and>
      fit_mode s' = fit_mode s \<and> meta s' = meta s \<and>
      pack s' = v \<and> length (pack s') = length (pack s)"
    if u: "unpack s v = Inr s'" for v s'
  proof -
    have len: "length v = length (pack s)"
      and s': "s' = s\<lparr>modules := fill_modules (modules s) v\<rparr>"
      using u by (auto simp add: unpack_def split: if_splits)
    have "pack s' = v"
      using pack_fill_modules [of "modules s" v] len by (simp add: s' pack_def)
    then show ?thesis
      using len by (simp add: s' fill_modules_fn fill_modules_prior fill_modules_names)
  qed
  then show ?thesis using unpack_pack by blast
qed

text \<open>The property at a concrete input.\<close>

theorem pack_unpack_round_trip_witness:
  "unpack example_spec [1, 5] = Inr example_unpacked \<and>
   pack example_unpacked = [1, 5] \<and>
   map fn (modules example_unpacked) = map fn (modules example_spec) \<and>
   unpack example_spec (pack example_spec) = Inr example_spec"
  using pack_unpack_round_trip [of example_spec] unpack_example by blast

section \<open>Properties of the fit entry point\<close>




lemma ensure_phi_ok_modules:
  "fst (ensure_phi ms) = None \<Longrightarrow>
   snd (ensure_phi ms) =
     map (\<lambda>m. case phi m of None \<Rightarrow> m\<lparr>phi := prior m\<rparr> | Some _ \<Rightarrow> m) ms"
  by (induction ms) (auto simp add: set_mean_phi_def split: option.splits prod.splits)

lemma fit_example:
  "fit_basic (4::real) no_phi_spec example_fitter basic_cost_fb id simple_vector example_metric
     ''fit_basic'' True example_evaluator 10 12 example_attrs =
   \<lparr>outcome = Inr [\<lparr>modules =
        [\<lparr>fn = ''fir'', phi = Some [(''coefficients'', [1])], prior = None\<rparr>,
         \<lparr>fn = ''dexp'', phi = Some [(''base'', [5])], prior = Some [(''base'', [2])]\<rparr>],
      fit_mode = False,
      meta = [(''fitter'', MStr ''fit_basic''), (''fit_time'', MReal 2), (''n_parms'', MInt 2)]\<rparr>],
    caller_spec = \<lparr>modules =
        [\<lparr>fn = ''fir'', phi = Some [(''coefficients'', [1])], prior = None\<rparr>,
         \<lparr>fn = ''dexp'', phi = Some [(''base'', [2])], prior = Some [(''base'', [2])]\<rparr>],
      fit_mode = True, meta = []\<rparr>,
    cost_attrs = \<lparr>counter = Some 1, error = Some 49, stack = Some 3\<rparr>,
    trace = [EvUnpack, EvSegment, EvEvaluate None False, EvMetric]\<rparr>"
  by (simp add: fit_basic_def no_phi_spec_def set_mean_phi_def fit_mode_on_def
      simple_vector_def pack_def pack_module_def pack_phi_def example_fitter_def
      basic_cost_fb_def unpack_def example_evaluator_def example_metric_def example_attrs_def
      bump_counter_def set_error_def fit_mode_off_def set_modelspec_metadata_def)






lemma fit_basic_success:
  assumes "outcome (fit_basic data mspec fitter cost_function segmentor mapper metric metaname
              require_phi evaluator t0 t1 a) = Inr res"
  shows "\<exists>ms1 v a' tr s'.
      (if require_phi then ensure_phi (modules mspec) else (None, modules mspec)) = (None, ms1) \<and>
      run_fitter
        (fitter (fst (mapper (fit_mode_on (mspec\<lparr>modules := ms1\<rparr>)))
                   (fit_mode_on (mspec\<lparr>modules := ms1\<rparr>))))
        (\<lambda>sigma. cost_function sigma (snd (mapper (fit_mode_on (mspec\<lparr>modules := ms1\<rparr>))))
                    (fit_mode_on (mspec\<lparr>modules := ms1\<rparr>)) data segmentor evaluator metric)
        (a\<lparr>counter := Some 0\<rparr>) = (Inr v, a', tr) \<and>
      snd (mapper (fit_mode_on (mspec\<lparr>modules := ms1\<rparr>))) v = Inr s' \<and>
      fit_basic data mspec fitter cost_function segmentor mapper metric metaname
          require_phi evaluator t0 t1 a =
        \<lparr>outcome = Inr [set_modelspec_metadata
                          (set_modelspec_metadata
                             (set_modelspec_metadata (fit_mode_off s') ''fitter'' (MStr metaname))
                             ''fit_time'' (MReal (t1 - t0)))
                          ''n_parms'' (MInt (int (length v)))],
         caller_spec = fit_mode_on (mspec\<lparr>modules := ms1\<rparr>), cost_attrs = a', trace = tr\<rparr>"
proof -
  obtain r0 ms1 where init:
    "(if require_phi then ensure_phi (modules mspec) else (None, modules mspec)) = (r0, ms1)"
    by (cases "if require_phi then ensure_phi (modules mspec) else (None, modules mspec)")
  have r0: "r0 = None"
    using assms init by (cases r0) (simp_all add: fit_basic_def)
  define spec2 where "spec2 = fit_mode_on (mspec\<lparr>modules := ms1\<rparr>)"
  obtain packer unpacker where m: "mapper spec2 = (packer, unpacker)"
    by (cases "mapper spec2") auto
  define cost_fn where
    "cost_fn = (\<lambda>sigma. cost_function sigma unpacker spec2 data segmentor evaluator metric)"
  obtain r a' tr where run:
    "run_fitter (fitter (packer spec2)) cost_fn (a\<lparr>counter := Some 0\<rparr>) = (r, a', tr)"
    by (cases "run_fitter (fitter (packer spec2)) cost_fn (a\<lparr>counter := Some 0\<rparr>)") auto
  have unf: "fit_basic data mspec fitter cost_function segmentor mapper metric metaname
          require_phi evaluator t0 t1 a =
      (case r of
         Inl e \<Rightarrow> \<lparr>outcome = Inl e, caller_spec = spec2, cost_attrs = a', trace = tr\<rparr>
       | Inr improved_sigma \<Rightarrow>
           (case unpacker improved_sigma of
              Inl e \<Rightarrow> \<lparr>outcome = Inl e, caller_spec = spec2, cost_attrs = a', trace = tr\<rparr>
            | Inr s' \<Rightarrow>
                \<lparr>outcome = Inr [set_modelspec_metadata
                          (set_modelspec_metadata
                             (set_modelspec_metadata (fit_mode_off s') ''fitter'' (MStr metaname))
                             ''fit_time'' (MReal (t1 - t0)))
                          ''n_parms'' (MInt (int (length improved_sigma)))],
                 caller_spec = spec2, cost_attrs = a', trace = tr\<rparr>))"
    using init r0 m run
    by (simp add: fit_basic_def Let_def spec2_def [symmetric] cost_fn_def [symmetric]
        split: sum.split)
  obtain v where v: "r = Inr v"
    using assms unf by (cases r) simp_all
  obtain s' where s': "unpacker v = Inr s'"
    using assms unf v by (cases "unpacker v") simp_all
  show ?thesis
    using init r0 m run unf v s'
    by (simp add: spec2_def cost_fn_def)
qed

text \<open>
  C5 (amended). When fit returns its result, the caller's specification has been changed in
  place: under \<^verbatim>\<open>require_phi\<close> every module without phi holds the mean of its
  prior, and the fit-mode marker is on; the modules are otherwise as before, and so is the
  metadata. The returned list holds the specification that the unpacker built from the
  improved vector, with fit mode off and the three metadata entries set.
\<close>

theorem fit_basic_caller_spec:
  assumes "outcome (fit_basic data mspec fitter cost_function segmentor mapper metric metaname
              require_phi evaluator t0 t1 a) = Inr res"
  shows "caller_spec (fit_basic data mspec fitter cost_function segmentor mapper metric
              metaname require_phi evaluator t0 t1 a) =
           mspec\<lparr>modules :=
                   (if require_phi
                    then map (\<lambda>m. case phi m of None \<Rightarrow> m\<lparr>phi := prior m\<rparr> | Some _ \<Rightarrow> m)
                           (modules mspec)
                    else modules mspec),
                 fit_mode := True\<rparr> \<and>
         (\<exists>v s'. snd (mapper (caller_spec (fit_basic data mspec fitter cost_function segmentor
                      mapper metric metaname require_phi evaluator t0 t1 a))) v = Inr s' \<and>
                 res = [s'\<lparr>fit_mode := False,
                           meta := dict_set (dict_set (dict_set (meta s') ''fitter''
                                     (MStr metaname)) ''fit_time'' (MReal (t1 - t0)))
                                     ''n_parms'' (MInt (int (length v)))\<rparr>])"
proof -
  from fit_basic_success [OF assms] obtain ms1 v a' tr s' where
    init: "(if require_phi then ensure_phi (modules mspec) else (None, modules mspec)) =
             (None, ms1)"
    and u: "snd (mapper (fit_mode_on (mspec\<lparr>modules := ms1\<rparr>))) v = Inr s'"
    and R: "fit_basic data mspec fitter cost_function segmentor mapper metric metaname
          require_phi evaluator t0 t1 a =
        \<lparr>outcome = Inr [set_modelspec_metadata
                          (set_modelspec_metadata
                             (set_modelspec_metadata (fit_mode_off s') ''fitter'' (MStr metaname))
                             ''fit_time'' (MReal (t1 - t0)))
                          ''n_parms'' (MInt (int (length v)))],
         caller_spec = fit_mode_on (mspec\<lparr>modules := ms1\<rparr>), cost_attrs = a', trace = tr\<rparr>"
    by blast
  have ms1: "ms1 = (if require_phi
                    then map (\<lambda>m. case phi m of None \<Rightarrow> m\<lparr>phi := prior m\<rparr> | Some _ \<Rightarrow> m)
                           (modules mspec)
                    else modules mspec)"
  proof (cases require_phi)
    case True
    then have "fst (ensure_phi (modules mspec)) = None" "snd (ensure_phi (modules mspec)) = ms1"
      using init by simp_all
    then show ?thesis using True ensure_phi_ok_modules [of "modules mspec"] by simp
  next
    case False
    then show ?thesis using init by simp
  qed
  have res: "res = [s'\<lparr>fit_mode := False,
                           meta := dict_set (dict_set (dict_set (meta s') ''fitter''
                                     (MStr metaname)) ''fit_time'' (MReal (t1 - t0)))
                                     ''n_parms'' (MInt (int (length v)))\<rparr>]"
    using assms R by (simp add: fit_mode_off_def set_modelspec_metadata_def)
  have cs: "caller_spec (fit_basic data mspec fitter cost_function segmentor mapper metric
              metaname require_phi evaluator t0 t1 a) = fit_mode_on (mspec\<lparr>modules := ms1\<rparr>)"
    using R by simp
  have A: "fit_mode_on (mspec\<lparr>modules := ms1\<rparr>) =
           mspec\<lparr>modules :=
                   (if require_phi
                    then map (\<lambda>m. case phi m of None \<Rightarrow> m\<lparr>phi := prior m\<rparr> | Some _ \<Rightarrow> m)
                           (modules mspec)
                    else modules mspec),
                 fit_mode := True\<rparr>"
    by (simp add: fit_mode_on_def ms1)
  have B: "\<exists>v s'. snd (mapper (fit_mode_on (mspec\<lparr>modules := ms1\<rparr>))) v = Inr s' \<and>
                 res = [s'\<lparr>fit_mode := False,
                           meta := dict_set (dict_set (dict_set (meta s') ''fitter''
                                     (MStr metaname)) ''fit_time'' (MReal (t1 - t0)))
                                     ''n_parms'' (MInt (int (length v)))\<rparr>]"
    using u res by blast
  show ?thesis
    unfolding cs using A B by (rule conjI)
qed











text \<open>The property at a concrete input.\<close>

theorem fit_basic_caller_spec_witness:
  "caller_spec
     (fit_basic (4::real) no_phi_spec example_fitter basic_cost_fb id simple_vector
        example_metric ''fit_basic'' True example_evaluator 10 12 example_attrs) =
   \<lparr>modules =
        [\<lparr>fn = ''fir'', phi = Some [(''coefficients'', [1])], prior = None\<rparr>,
         \<lparr>fn = ''dexp'', phi = Some [(''base'', [2])], prior = Some [(''base'', [2])]\<rparr>],
      fit_mode = True, meta = []\<rparr>"
proof -
  have o: "outcome
     (fit_basic (4::real) no_phi_spec example_fitter basic_cost_fb id simple_vector
        example_metric ''fit_basic'' True example_evaluator 10 12 example_attrs) =
     Inr [\<lparr>modules =
        [\<lparr>fn = ''fir'', phi = Some [(''coefficients'', [1])], prior = None\<rparr>,
         \<lparr>fn = ''dexp'', phi = Some [(''base'', [5])], prior = Some [(''base'', [2])]\<rparr>],
      fit_mode = False,
      meta = [(''fitter'', MStr ''fit_basic''), (''fit_time'', MReal 2), (''n_parms'', MInt 2)]\<rparr>]"
    by (simp add: fit_example)
  from fit_basic_caller_spec [OF o]
  show ?thesis by (simp add: no_phi_spec_def)
qed

text \<open>
  C5 as stated fails: after a successful fit the caller's specification differs from
  what was passed in, in its fit-mode marker and in the phi of its second module.
\<close>

theorem fit_basic_caller_spec_counterexample:
  "caller_spec
     (fit_basic (4::real) no_phi_spec example_fitter basic_cost_fb id simple_vector
        example_metric ''fit_basic'' True example_evaluator 10 12 example_attrs) \<noteq>
     no_phi_spec \<and>
   fit_mode no_phi_spec = False \<and>
   fit_mode (caller_spec
     (fit_basic (4::real) no_phi_spec example_fitter basic_cost_fb id simple_vector
        example_metric ''fit_basic'' True example_evaluator 10 12 example_attrs)) = True \<and>
   map phi (modules no_phi_spec) = [Some [(''coefficients'', [1])], None] \<and>
   map phi (modules (caller_spec
     (fit_basic (4::real) no_phi_spec example_fitter basic_cost_fb id simple_vector
        example_metric ''fit_basic'' True example_evaluator 10 12 example_attrs))) =
     [Some [(''coefficients'', [1])], Some [(''base'', [2])]]"
  by (simp add: fit_example) (simp add: no_phi_spec_def)


end
